theory Spec2Isabelle
  imports Complex_Main "HOL-Library.Char_ord" "HOL-Library.List_Lexorder" "HOL-Library.Multiset"
begin

section \<open>Automobile sales dashboard: data model\<close>

text \<open>
  The program is \<^verbatim>\<open>Part2_dashboard.py\<close>: a module that loads one CSV into a pandas
  DataFrame \<^verbatim>\<open>df\<close>, cleans three columns, defaults four others, derives the list
  \<^verbatim>\<open>years\<close>, and registers two Dash callbacks, \<^verbatim>\<open>toggle_year_dropdown\<close> and
  \<^verbatim>\<open>update_charts\<close>.

  Conventions of the embedding.
  \<^item> A float64 value is a \<open>real option\<close>: \<open>None\<close> is NaN. Sums and means are exact;
    rounding of IEEE arithmetic and the infinities are not modelled.
  \<^item> A nullable integer (\<^verbatim>\<open>Int64\<close>) is an \<open>int option\<close>, \<open>None\<close> being \<^verbatim>\<open>pd.NA\<close>.
  \<^item> A missing entry of an object (string) column is \<open>None\<close>.
  \<^item> Strings are byte lists; their order is the lexicographic order on bytes, which on
    UTF-8 agrees with the code point order Python uses.
  \<^item> Every raise of the source is a value \<open>Inl e\<close>.
  \<^item> The pandas operations have the behaviour of pandas 2 with their default arguments:
    \<^verbatim>\<open>astype(str)\<close> turns NaN into the text \<^verbatim>\<open>nan\<close>, \<^verbatim>\<open>groupby\<close> sorts its keys and
    drops null keys, \<^verbatim>\<open>sum\<close> and \<^verbatim>\<open>mean\<close> skip NaN, and both raise \<^verbatim>\<open>TypeError\<close> when
    they are called with \<^verbatim>\<open>numeric_only=True\<close> on a column of dtype object.
  \<^item> Python's \<^verbatim>\<open>int\<close> on a string is a parameter of the callbacks, written \<open>py_int\<close>:
    \<open>py_int s\<close> is the integer \<^verbatim>\<open>int(s)\<close> returns, and \<open>None\<close> when \<^verbatim>\<open>int(s)\<close> raises.
\<close>

datatype error = KeyError string | TypeError | ValueError | OverflowError

text \<open>One row of the cleaned frame \<^verbatim>\<open>df\<close> (the columns the callbacks read).\<close>

record sales_record =
  Year :: "int option"
  Month :: string
  Recession :: int
  Automobile_Sales :: "real option"
  Vehicle_Type :: "string option"
  Advertising_Expenditure :: "real option"
  unemployment_rate :: "real option"

type_synonym dataset = "sales_record list"

text \<open>
  The dtype of a column the program never converts: a numeric one (float64), or object,
  which \<^verbatim>\<open>read_csv\<close> infers for a column without any cell (a CSV that has only its header
  line) and for a column that holds text.
\<close>

datatype dtype = Float64 | Object

text \<open>
  The frame \<^verbatim>\<open>df\<close>: its rows, and the dtype of the two columns that are aggregated with
  \<^verbatim>\<open>numeric_only=True\<close>. Under dtype object the aggregation raises before it reads a
  cell, so the values the rows carry in such a column are never used.
\<close>

record frame =
  records :: dataset
  Automobile_Sales_dtype :: dtype
  Advertising_Expenditure_dtype :: dtype

subsection \<open>The frame as read from the CSV\<close>

text \<open>
  A cell of a column whose dtype the cleaning code does not rely on: NaN, an int64, a
  float64 or a Python string of an object column.
\<close>

datatype cell = NA | IntC int | FloatC real | StrC string

text \<open>
  \<^verbatim>\<open>df = pd.read_csv(URL)\<close>. The frame has a list of column names and its rows. The
  columns \<^verbatim>\<open>Year\<close>, \<^verbatim>\<open>Month\<close> and \<^verbatim>\<open>Recession\<close> are converted by the cleaning code and
  hold arbitrary cells. The other four are never converted by the program: the cells of
  \<^verbatim>\<open>Automobile_Sales\<close>, \<^verbatim>\<open>Advertising_Expenditure\<close> and \<^verbatim>\<open>unemployment_rate\<close> are
  numbers, those of \<^verbatim>\<open>Vehicle_Type\<close> strings, each possibly missing, and the frame records
  the dtype \<^verbatim>\<open>read_csv\<close> gave the two columns that are aggregated. The field of a column
  that is not listed in \<open>columns\<close> is not read.
\<close>

record raw_row =
  raw_Year :: cell
  raw_Month :: cell
  raw_Recession :: cell
  raw_Automobile_Sales :: "real option"
  raw_Vehicle_Type :: "string option"
  raw_Advertising_Expenditure :: "real option"
  raw_unemployment_rate :: "real option"

record raw_frame =
  columns :: "string list"
  rows :: "raw_row list"
  raw_Automobile_Sales_dtype :: dtype
  raw_Advertising_Expenditure_dtype :: dtype

subsection \<open>Python and pandas primitives\<close>

text \<open>\<^verbatim>\<open>str(n)\<close> for a Python int.\<close>

fun str_nat :: "nat \<Rightarrow> string" where
  "str_nat n =
     (if n < 10 then [''0123456789'' ! n]
      else str_nat (n div 10) @ [''0123456789'' ! (n mod 10)])"

definition str_int :: "int \<Rightarrow> string" where
  "str_int i = (if i < 0 then CHR ''-'' # str_nat (nat (- i)) else str_nat (nat i))"

text \<open>
  An instance of the parameter \<open>py_int\<close>, used to evaluate the examples: \<^verbatim>\<open>int(s)\<close>
  restricted to strings of ASCII characters. On such a string \<^verbatim>\<open>int\<close> strips the blanks
  space, tab, line feed, vertical tab, form feed and carriage return, allows one sign, and
  reads decimal digits, where single underscores may separate digits. On a string with a
  character outside ASCII it is \<open>None\<close>, which need not be what \<^verbatim>\<open>int\<close> does; the
  examples use ASCII labels only, and no theorem below depends on this instance, apart from
  the evaluations of the examples.
\<close>

definition is_space :: "char \<Rightarrow> bool" where
  "is_space c \<longleftrightarrow>
     c \<in> set [CHR '' '', CHR 0x09, CHR 0x0A, CHR 0x0B, CHR 0x0C, CHR 0x0D]"

definition strip :: "string \<Rightarrow> string" where
  "strip s = rev (dropWhile is_space (rev (dropWhile is_space s)))"

definition digit_val :: "char \<Rightarrow> nat option" where
  "digit_val c =
     map_of [(CHR ''0'', 0), (CHR ''1'', 1), (CHR ''2'', 2), (CHR ''3'', 3), (CHR ''4'', 4),
             (CHR ''5'', 5), (CHR ''6'', 6), (CHR ''7'', 7), (CHR ''8'', 8), (CHR ''9'', 9)] c"

fun parse_digits :: "nat \<Rightarrow> string \<Rightarrow> nat option" where
  "parse_digits acc [] = Some acc"
| "parse_digits acc (c # cs) =
     (if c = CHR ''_'' then
        (case cs of
           [] \<Rightarrow> None
         | d # ds \<Rightarrow>
             (case digit_val d of
                None \<Rightarrow> None
              | Some v \<Rightarrow> parse_digits (10 * acc + v) ds))
      else
        (case digit_val c of
           None \<Rightarrow> None
         | Some v \<Rightarrow> parse_digits (10 * acc + v) cs))"

definition parse_decimal :: "string \<Rightarrow> nat option" where
  "parse_decimal s =
     (case s of
        [] \<Rightarrow> None
      | c # cs \<Rightarrow> (case digit_val c of None \<Rightarrow> None | Some v \<Rightarrow> parse_digits v cs))"

definition ascii_int :: "string \<Rightarrow> int option" where
  "ascii_int s =
     (case strip s of
        [] \<Rightarrow> None
      | c # cs \<Rightarrow>
          if c = CHR ''-'' then map_option (\<lambda>n. - int n) (parse_decimal cs)
          else if c = CHR ''+'' then map_option int (parse_decimal cs)
          else map_option int (parse_decimal (c # cs)))"

text \<open>
  One element of \<^verbatim>\<open>Series.astype(int)\<close> on strings: \<^verbatim>\<open>int(s)\<close>, stored as a 64-bit
  integer. A string that \<^verbatim>\<open>int\<close> rejects raises \<^verbatim>\<open>ValueError\<close>, one out of range
  \<^verbatim>\<open>OverflowError\<close>.
\<close>

definition str_to_int64 :: "(string \<Rightarrow> int option) \<Rightarrow> string \<Rightarrow> error + int" where
  "str_to_int64 py_int s =
     (case py_int s of
        None \<Rightarrow> Inl ValueError
      | Some n \<Rightarrow>
          if - (2 ^ 63) \<le> n \<and> n < 2 ^ 63 then Inr n else Inl OverflowError)"

text \<open>A conversion of a whole column stops at the first element that raises.\<close>

fun cast_all :: "('a \<Rightarrow> error + 'b) \<Rightarrow> 'a list \<Rightarrow> error + 'b list" where
  "cast_all f [] = Inr []"
| "cast_all f (x # xs) =
     (case f x of
        Inl e \<Rightarrow> Inl e
      | Inr y \<Rightarrow> (case cast_all f xs of Inl e \<Rightarrow> Inl e | Inr ys \<Rightarrow> Inr (y # ys)))"

text \<open>
  \<^verbatim>\<open>pd.to_numeric(col, errors="coerce")\<close> on one cell. How pandas reads a number out of a
  string is not part of the program: it is the parameter \<open>num_of_str\<close>, \<open>None\<close> where
  pandas cannot parse and coerces to NaN.
\<close>

definition to_numeric_coerce :: "(string \<Rightarrow> real option) \<Rightarrow> cell \<Rightarrow> real option" where
  "to_numeric_coerce num_of_str c =
     (case c of
        NA \<Rightarrow> None
      | IntC i \<Rightarrow> Some (of_int i)
      | FloatC r \<Rightarrow> Some r
      | StrC s \<Rightarrow> num_of_str s)"

text \<open>
  \<^verbatim>\<open>.astype("Int64")\<close> on one numeric value: NaN becomes \<^verbatim>\<open>pd.NA\<close>, an integral value
  within 64 bits its integer; a value with a fractional part or outside 64 bits raises
  \<^verbatim>\<open>TypeError\<close> (no safe cast).
\<close>

definition astype_Int64 :: "real option \<Rightarrow> error + int option" where
  "astype_Int64 v =
     (case v of
        None \<Rightarrow> Inr None
      | Some r \<Rightarrow>
          if of_int \<lfloor>r\<rfloor> = r \<and> - (2 ^ 63) \<le> \<lfloor>r\<rfloor> \<and> \<lfloor>r\<rfloor> < 2 ^ 63 then Inr (Some \<lfloor>r\<rfloor>)
          else Inl TypeError)"

text \<open>
  \<^verbatim>\<open>.fillna(0).astype(int)\<close> on one numeric value: NaN is 0, a float is truncated towards
  zero, and a float whose truncation does not fit 64 bits becomes the least 64-bit
  integer, which is what numpy's cast from float64 to int64 stores on x86-64.
\<close>

definition trunc :: "real \<Rightarrow> int" where
  "trunc r = (if 0 \<le> r then \<lfloor>r\<rfloor> else \<lceil>r\<rceil>)"

definition fillna0_astype_int :: "real option \<Rightarrow> int" where
  "fillna0_astype_int v =
     (case v of
        None \<Rightarrow> 0
      | Some r \<Rightarrow> if - (2 ^ 63) \<le> trunc r \<and> trunc r < 2 ^ 63 then trunc r else - (2 ^ 63))"

text \<open>
  \<^verbatim>\<open>.astype(str)\<close> on one cell. The text pandas prints for a float is the parameter
  \<open>str_of_float\<close>.
\<close>

definition astype_str :: "(real \<Rightarrow> string) \<Rightarrow> cell \<Rightarrow> string" where
  "astype_str str_of_float c =
     (case c of
        NA \<Rightarrow> ''nan''
      | IntC i \<Rightarrow> str_int i
      | FloatC r \<Rightarrow> str_of_float r
      | StrC s \<Rightarrow> s)"

text \<open>
  \<^verbatim>\<open>groupby(key, as_index=False)\<close> with the defaults \<^verbatim>\<open>sort=True, dropna=True\<close>: one
  group per distinct non-null key, in ascending key order; a group holds the rows of that
  key in frame order. Rows with a null key are in no group.
\<close>

definition groupby :: "('r \<Rightarrow> 'k::linorder option) \<Rightarrow> 'r list \<Rightarrow> ('k \<times> 'r list) list" where
  "groupby key d =
     map (\<lambda>k. (k, filter (\<lambda>r. key r = Some k) d)) (sort (remdups (List.map_filter key d)))"

text \<open>\<^verbatim>\<open>.sum(numeric_only=True)\<close> of one group: NaN is skipped, the empty sum is 0.\<close>

definition sum_skipna :: "real option list \<Rightarrow> real" where
  "sum_skipna vs = sum_list (List.map_filter id vs)"

text \<open>
  \<^verbatim>\<open>.mean(numeric_only=True)\<close> of one group: NaN is skipped; a group with no value left
  has mean NaN.
\<close>

definition mean_skipna :: "real option list \<Rightarrow> real option" where
  "mean_skipna vs =
     (let xs = List.map_filter id vs
      in if xs = [] then None else Some (sum_list xs / real (length xs)))"

definition groupby_mean ::
  "('r \<Rightarrow> 'k::linorder option) \<Rightarrow> ('r \<Rightarrow> real option) \<Rightarrow> 'r list \<Rightarrow> ('k \<times> real option) list" where
  "groupby_mean key col d = map (\<lambda>(k, g). (k, mean_skipna (map col g))) (groupby key d)"

definition groupby_sum ::
  "('r \<Rightarrow> 'k::linorder option) \<Rightarrow> ('r \<Rightarrow> real option) \<Rightarrow> 'r list \<Rightarrow> ('k \<times> real) list" where
  "groupby_sum key col d = map (\<lambda>(k, g). (k, sum_skipna (map col g))) (groupby key d)"

section \<open>Loading and cleaning (module level, lines 17 to 42)\<close>

text \<open>
  Lines 20 to 22 index the columns \<^verbatim>\<open>Year\<close>, \<^verbatim>\<open>Month\<close> and \<^verbatim>\<open>Recession\<close>, in this
  order; a missing one raises \<^verbatim>\<open>KeyError\<close>, and the \<^verbatim>\<open>Int64\<close> cast of \<^verbatim>\<open>Year\<close> may raise.
  Lines 25 to 32 add each of the four other columns, with its default in every row, only
  when the frame has no column of that name. A column added with the default \<^verbatim>\<open>0.0\<close> is
  float64, also in a frame without rows; a column that was read keeps its dtype.
\<close>

definition clean_row ::
  "(real \<Rightarrow> string) \<Rightarrow> (string \<Rightarrow> real option) \<Rightarrow> string list \<Rightarrow> int option \<Rightarrow> raw_row
     \<Rightarrow> sales_record" where
  "clean_row str_of_float num_of_str cols y r =
     \<lparr> Year = y,
       Month = astype_str str_of_float (raw_Month r),
       Recession = fillna0_astype_int (to_numeric_coerce num_of_str (raw_Recession r)),
       Automobile_Sales =
         (if ''Automobile_Sales'' \<notin> set cols then Some 0 else raw_Automobile_Sales r),
       Vehicle_Type =
         (if ''Vehicle_Type'' \<notin> set cols then Some ''Unknown'' else raw_Vehicle_Type r),
       Advertising_Expenditure =
         (if ''Advertising_Expenditure'' \<notin> set cols then Some 0
          else raw_Advertising_Expenditure r),
       unemployment_rate =
         (if ''unemployment_rate'' \<notin> set cols then None else raw_unemployment_rate r) \<rparr>"

definition load_df ::
  "(real \<Rightarrow> string) \<Rightarrow> (string \<Rightarrow> real option) \<Rightarrow> raw_frame \<Rightarrow> error + frame" where
  "load_df str_of_float num_of_str raw =
     (if ''Year'' \<notin> set (columns raw) then Inl (KeyError ''Year'')
      else
        (case cast_all (\<lambda>r. astype_Int64 (to_numeric_coerce num_of_str (raw_Year r))) (rows raw) of
           Inl e \<Rightarrow> Inl e
         | Inr ys \<Rightarrow>
             if ''Month'' \<notin> set (columns raw) then Inl (KeyError ''Month'')
             else if ''Recession'' \<notin> set (columns raw) then Inl (KeyError ''Recession'')
             else Inr
               \<lparr> records = map (\<lambda>(y, r). clean_row str_of_float num_of_str (columns raw) y r)
                             (zip ys (rows raw)),
                 Automobile_Sales_dtype =
                   (if ''Automobile_Sales'' \<notin> set (columns raw) then Float64
                    else raw_Automobile_Sales_dtype raw),
                 Advertising_Expenditure_dtype =
                   (if ''Advertising_Expenditure'' \<notin> set (columns raw) then Float64
                    else raw_Advertising_Expenditure_dtype raw) \<rparr>))"

text \<open>
  Line 42: \<^verbatim>\<open>years = sorted([int(y) for y in df["Year"].dropna().unique().tolist()])\<close>.
\<close>

definition years_of :: "dataset \<Rightarrow> int list" where
  "years_of d = sort (remdups (List.map_filter Year d))"

text \<open>The module globals the callbacks read.\<close>

record globals =
  df :: frame
  years :: "int list"

definition startup :: "frame \<Rightarrow> globals" where
  "startup fr = \<lparr> df = fr, years = years_of (records fr) \<rparr>"

text \<open>
  The year dropdown of the layout (lines 65 to 70): its options are (label, value) pairs,
  \<^verbatim>\<open>[{"label": str(y), "value": y} for y in years]\<close>, and its initial value is
  \<^verbatim>\<open>years[-1] if years else None\<close>.
\<close>

definition year_dd_options :: "globals \<Rightarrow> (string \<times> int) list" where
  "year_dd_options g = map (\<lambda>y. (str_int y, y)) (years g)"

definition year_dd_value :: "globals \<Rightarrow> int option" where
  "year_dd_value g = (if years g \<noteq> [] then Some (last (years g)) else None)"

section \<open>Chart descriptors\<close>

text \<open>
  A figure is described by its kind, the frame it plots and its title. \<open>No_data\<close> is the
  placeholder built by \<^verbatim>\<open>_empty_fig(title)\<close>: hidden axes and the annotation "No data".
  Of the plotly calls, \<^verbatim>\<open>px.scatter\<close> validates what it is given: the marker sizes,
  here the column \<^verbatim>\<open>Automobile_Sales\<close>, must be numbers that are not negative, and a NaN
  or a negative size raises \<^verbatim>\<open>ValueError\<close>. The other calls return the figure they are
  asked for.
\<close>

datatype figure =
  No_data string
| Line_by_year "(int \<times> real option) list" string
| Line_by_month "(string \<times> real) list" string
| Bar_by_type "(string \<times> real option) list" string
| Pie_by_type "(string \<times> real) list" string
| Scatter_unemployment "sales_record list" string

definition empty_fig :: "string \<Rightarrow> figure" where
  "empty_fig title = No_data title"

definition invalid_size :: "real option \<Rightarrow> bool" where
  "invalid_size v = (case v of None \<Rightarrow> True | Some x \<Rightarrow> x < 0)"

section \<open>Callbacks\<close>

subsection \<open>\<^verbatim>\<open>toggle_year_dropdown\<close> (lines 117 to 120)\<close>

definition toggle_year_dropdown :: "string \<Rightarrow> bool \<times> string" where
  "toggle_year_dropdown report_type =
     (if report_type = ''Yearly Statistics'' then (False, ''Year is enabled for Yearly Statistics.'')
      else (True, ''Year is disabled for Recession Period Statistics.''))"

text \<open>
  The selector state of the page: the values of the two dropdowns and the two properties
  \<^verbatim>\<open>toggle_year_dropdown\<close> writes, \<^verbatim>\<open>year-dd.disabled\<close> and \<^verbatim>\<open>year-help.children\<close>. A
  change of \<^verbatim>\<open>report-dd.value\<close> fires the callback, whose two outputs replace those
  properties; a change of \<^verbatim>\<open>year-dd.value\<close> does not fire it.
\<close>

record selector =
  report_dd :: string
  year_dd :: "int option"
  year_dd_disabled :: bool
  year_help :: string

definition set_report :: "selector \<Rightarrow> string \<Rightarrow> selector" where
  "set_report st report_type =
     (let (disabled, help) = toggle_year_dropdown report_type
      in st\<lparr> report_dd := report_type, year_dd_disabled := disabled, year_help := help \<rparr>)"

definition set_year :: "selector \<Rightarrow> int option \<Rightarrow> selector" where
  "set_year st y = st\<lparr> year_dd := y \<rparr>"

subsection \<open>The aggregations of \<^verbatim>\<open>update_charts\<close>\<close>

text \<open>
  Each definition is the local variable of the same name, as a function of the rows: the
  frame the aggregation returns on a float64 column. That it raises on a column of dtype
  object is written where it is called, in \<open>yearly_figures\<close> and \<open>recession_figures\<close>.
\<close>

text \<open>Lines 139 and 140, on the whole frame.\<close>

definition yearly :: "dataset \<Rightarrow> (int \<times> real option) list" where
  "yearly d = groupby_mean Year Automobile_Sales d"

text \<open>
  Line 148: \<^verbatim>\<open>df[df["Year"] == year_value]\<close>. A row whose \<^verbatim>\<open>Year\<close> is \<^verbatim>\<open>pd.NA\<close> compares
  as NA and is not selected, and no row is selected when \<^verbatim>\<open>year_value\<close> is \<^verbatim>\<open>None\<close>.
\<close>

definition dff :: "dataset \<Rightarrow> int option \<Rightarrow> dataset" where
  "dff d year_value = filter (\<lambda>r. year_value \<noteq> None \<and> Year r = year_value) d"

text \<open>Lines 151 and 152. \<^verbatim>\<open>Month\<close> is a string column: no key is null.\<close>

definition monthly :: "dataset \<Rightarrow> (string \<times> real) list" where
  "monthly d = groupby_sum (\<lambda>r. Some (Month r)) Automobile_Sales d"

text \<open>
  Lines 154 to 158: the \<^verbatim>\<open>try\<close> block. \<^verbatim>\<open>monthly["Month"].astype(int)\<close> converts the
  whole column or raises; when it raises, \<^verbatim>\<open>except Exception: pass\<close> leaves \<^verbatim>\<open>monthly\<close>
  as it was. Otherwise the rows are sorted by the new column \<^verbatim>\<open>Month_num\<close>. The sort is
  modelled by the stable \<open>sort_key\<close>; the claims proved below do not depend on the order
  among rows of equal \<^verbatim>\<open>Month_num\<close>. The figure plots only \<^verbatim>\<open>Month\<close> and
  \<^verbatim>\<open>Automobile_Sales\<close>, so the extra column is dropped again.
\<close>

definition monthly_sorted ::
  "(string \<Rightarrow> int option) \<Rightarrow> (string \<times> real) list \<Rightarrow> (string \<times> real) list" where
  "monthly_sorted py_int m =
     (case cast_all (str_to_int64 py_int) (map fst m) of
        Inl e \<Rightarrow> m
      | Inr month_num \<Rightarrow> map snd (sort_key fst (zip month_num m)))"

text \<open>Lines 166 and 167, and lines 174 and 175.\<close>

definition by_type :: "dataset \<Rightarrow> (string \<times> real option) list" where
  "by_type d = groupby_mean Vehicle_Type Automobile_Sales d"

definition adv :: "dataset \<Rightarrow> (string \<times> real) list" where
  "adv d = groupby_sum Vehicle_Type Advertising_Expenditure d"

text \<open>Line 183 and the four aggregations of the recession branch.\<close>

definition rec :: "dataset \<Rightarrow> dataset" where
  "rec d = filter (\<lambda>r. Recession r = 1) d"

definition rec_yearly :: "dataset \<Rightarrow> (int \<times> real option) list" where
  "rec_yearly d = groupby_mean Year Automobile_Sales (rec d)"

definition rec_type_avg :: "dataset \<Rightarrow> (string \<times> real option) list" where
  "rec_type_avg d = groupby_mean Vehicle_Type Automobile_Sales (rec d)"

definition rec_adv :: "dataset \<Rightarrow> (string \<times> real) list" where
  "rec_adv d = groupby_sum Vehicle_Type Advertising_Expenditure (rec d)"

definition rec_u :: "dataset \<Rightarrow> dataset" where
  "rec_u d = filter (\<lambda>r. unemployment_rate r \<noteq> None) (rec d)"

subsection \<open>\<^verbatim>\<open>update_charts\<close> (lines 131 to 223)\<close>

text \<open>The text an f-string prints for \<^verbatim>\<open>year_value\<close>, and the dash of the titles (U+2014).\<close>

definition str_year :: "int option \<Rightarrow> string" where
  "str_year y = (case y of None \<Rightarrow> ''None'' | Some n \<Rightarrow> str_int n)"

definition em_dash :: string where
  "em_dash = [CHR 0xE2, CHR 0x80, CHR 0x94]"

definition year_title :: "string \<Rightarrow> int option \<Rightarrow> string" where
  "year_title t y = t @ '' '' @ em_dash @ '' '' @ str_year y"

type_synonym figures = "figure \<times> figure \<times> figure \<times> figure"

text \<open>
  The Yearly branch, lines 139 to 180. Line 139 raises on an object \<^verbatim>\<open>Automobile_Sales\<close>
  column and line 174 on an object \<^verbatim>\<open>Advertising_Expenditure\<close> column; a raise ends the
  callback, and no figure is returned.
\<close>

definition yearly_figures ::
  "(string \<Rightarrow> int option) \<Rightarrow> frame \<Rightarrow> int option \<Rightarrow> error + figures" where
  "yearly_figures py_int fr year_value =
     (if Automobile_Sales_dtype fr = Object then Inl TypeError
      else
        let d = records fr;
            fig1 = (if yearly d = [] then empty_fig ''Yearly Automobile Sales (Average)''
                    else Line_by_year (yearly d) ''Yearly Automobile Sales (Average over Months)'');
            sel = dff d year_value;
            m = monthly_sorted py_int (monthly sel);
            fig2 = (if m = []
                    then empty_fig (year_title ''Total Monthly Automobile Sales'' year_value)
                    else Line_by_month m (year_title ''Total Monthly Automobile Sales'' year_value));
            fig3 = (if by_type sel = []
                    then empty_fig (year_title ''Average Vehicles Sold by Vehicle Type'' year_value)
                    else Bar_by_type (by_type sel)
                           (year_title ''Average Vehicles Sold by Vehicle Type'' year_value))
        in if Advertising_Expenditure_dtype fr = Object then Inl TypeError
           else
             let fig4 = (if adv sel = []
                         then empty_fig (year_title ''Ad Expenditure Share by Vehicle Type'' year_value)
                         else Pie_by_type (adv sel)
                                (year_title ''Ad Expenditure Share by Vehicle Type'' year_value))
             in Inr (fig1, fig2, fig3, fig4))"

text \<open>
  The recession branch, lines 183 to 223. Line 186 raises on an object \<^verbatim>\<open>Automobile_Sales\<close>
  column, line 202 on an object \<^verbatim>\<open>Advertising_Expenditure\<close> column, and \<^verbatim>\<open>px.scatter\<close> at
  line 215 on a row of \<^verbatim>\<open>rec_u\<close> whose \<^verbatim>\<open>Automobile_Sales\<close> is NaN or negative.
\<close>

definition recession_figures :: "frame \<Rightarrow> error + figures" where
  "recession_figures fr =
     (if Automobile_Sales_dtype fr = Object then Inl TypeError
      else
        let d = records fr;
            fig1 = (if rec_yearly d = []
                    then empty_fig ''Avg Automobile Sales during Recession (Year-wise)''
                    else Line_by_year (rec_yearly d)
                           ''Avg Automobile Sales during Recession (Year-wise)'');
            fig2 = (if rec_type_avg d = []
                    then empty_fig ''Avg Vehicles Sold by Vehicle Type (Recession)''
                    else Bar_by_type (rec_type_avg d)
                           ''Avg Vehicles Sold by Vehicle Type (Recession)'')
        in if Advertising_Expenditure_dtype fr = Object then Inl TypeError
           else
             let fig3 = (if rec_adv d = []
                         then empty_fig ''Ad Expenditure Share by Vehicle Type (Recession)''
                         else Pie_by_type (rec_adv d)
                                ''Ad Expenditure Share by Vehicle Type (Recession)'')
             in if rec_u d = []
                then Inr (fig1, fig2, fig3, empty_fig ''Unemployment vs Sales (Recession)'')
                else if \<exists>r\<in>set (rec_u d). invalid_size (Automobile_Sales r) then Inl ValueError
                else Inr (fig1, fig2, fig3,
                          Scatter_unemployment (rec_u d)
                            ''Unemployment vs Automobile Sales by Vehicle Type (Recession)''))"

definition update_charts ::
  "(string \<Rightarrow> int option) \<Rightarrow> globals \<Rightarrow> string \<Rightarrow> int option \<Rightarrow> error + figures" where
  "update_charts py_int g report_type year_value =
     (let year_value = (if year_value = None \<and> years g \<noteq> [] then Some (last (years g))
                        else year_value)
      in if report_type = ''Yearly Statistics'' then yearly_figures py_int (df g) year_value
         else recession_figures (df g))"

text \<open>The figure of one chart slot, when the callback returns.\<close>

definition slot1 :: "error + figures \<Rightarrow> error + figure" where
  "slot1 res = map_sum id (\<lambda>(f1, f2, f3, f4). f1) res"

definition slot2 :: "error + figures \<Rightarrow> error + figure" where
  "slot2 res = map_sum id (\<lambda>(f1, f2, f3, f4). f2) res"

definition slot3 :: "error + figures \<Rightarrow> error + figure" where
  "slot3 res = map_sum id (\<lambda>(f1, f2, f3, f4). f3) res"

definition slot4 :: "error + figures \<Rightarrow> error + figure" where
  "slot4 res = map_sum id (\<lambda>(f1, f2, f3, f4). f4) res"

subsection \<open>Reading a month label as a number\<close>

text \<open>
  The value \<^verbatim>\<open>astype(int)\<close> gives a \<^verbatim>\<open>Month\<close> label, when it gives one: a label is
  numeric for the program exactly when this is not \<open>None\<close>, that is when \<^verbatim>\<open>int\<close> reads
  it and the integer fits 64 bits.
\<close>

definition month_num :: "(string \<Rightarrow> int option) \<Rightarrow> string \<Rightarrow> int option" where
  "month_num py_int s = (case str_to_int64 py_int s of Inl e \<Rightarrow> None | Inr n \<Rightarrow> Some n)"

section \<open>Example data\<close>

text \<open>
  The rows of a small frame used to evaluate the definitions: four rows of 2019 with
  numeric month labels, two of them in month 2, then two recession rows of 2020, one of
  them with a month name, and a row without year and vehicle type.
\<close>

definition sample_df :: dataset where
  "sample_df =
     [\<lparr> Year = Some 2019, Month = ''10'', Recession = 0, Automobile_Sales = Some 300,
        Vehicle_Type = Some ''B'', Advertising_Expenditure = Some 5,
        unemployment_rate = Some 4 \<rparr>,
      \<lparr> Year = Some 2019, Month = ''2'', Recession = 0, Automobile_Sales = Some 200,
        Vehicle_Type = Some ''A'', Advertising_Expenditure = Some 7,
        unemployment_rate = None \<rparr>,
      \<lparr> Year = Some 2019, Month = ''1'', Recession = 0, Automobile_Sales = Some 100,
        Vehicle_Type = Some ''A'', Advertising_Expenditure = Some 3,
        unemployment_rate = None \<rparr>,
      \<lparr> Year = Some 2019, Month = ''2'', Recession = 0, Automobile_Sales = Some 40,
        Vehicle_Type = Some ''B'', Advertising_Expenditure = Some 2,
        unemployment_rate = None \<rparr>,
      \<lparr> Year = Some 2020, Month = ''Jan'', Recession = 1, Automobile_Sales = Some 50,
        Vehicle_Type = Some ''B'', Advertising_Expenditure = Some 10,
        unemployment_rate = Some 6 \<rparr>,
      \<lparr> Year = Some 2020, Month = ''3'', Recession = 1, Automobile_Sales = Some 150,
        Vehicle_Type = Some ''C'', Advertising_Expenditure = Some 30,
        unemployment_rate = None \<rparr>,
      \<lparr> Year = None, Month = ''4'', Recession = 0, Automobile_Sales = Some 70,
        Vehicle_Type = None, Advertising_Expenditure = None,
        unemployment_rate = None \<rparr>]"

text \<open>The frame of these rows, with float64 columns.\<close>

definition sample_frame :: frame where
  "sample_frame =
     \<lparr> records = sample_df, Automobile_Sales_dtype = Float64,
       Advertising_Expenditure_dtype = Float64 \<rparr>"

text \<open>
  Stand-ins for the two pandas parameters of the loader, used only to evaluate it on the
  example below: strings are read as integer literals, and a float prints as its integer
  part followed by \<^verbatim>\<open>.0\<close>.
\<close>

definition sample_num_of_str :: "string \<Rightarrow> real option" where
  "sample_num_of_str s = map_option of_int (ascii_int s)"

definition sample_str_of_float :: "real \<Rightarrow> string" where
  "sample_str_of_float r = str_int \<lfloor>r\<rfloor> @ ''.0''"

text \<open>
  A CSV with the columns \<^verbatim>\<open>Year,Month,Recession,Automobile_Sales,Vehicle_Type\<close> and two
  rows, \<^verbatim>\<open>2019,1,1,100,Sedan\<close> and \<^verbatim>\<open>2019,2,n/a,200,\<close>: the second has text in
  \<^verbatim>\<open>Recession\<close> and an empty \<^verbatim>\<open>Vehicle_Type\<close>.
\<close>

definition sample_raw :: raw_frame where
  "sample_raw =
     \<lparr> columns = [''Year'', ''Month'', ''Recession'', ''Automobile_Sales'', ''Vehicle_Type''],
       rows =
         [\<lparr> raw_Year = IntC 2019, raw_Month = IntC 1, raw_Recession = StrC ''1'',
            raw_Automobile_Sales = Some 100, raw_Vehicle_Type = Some ''Sedan'',
            raw_Advertising_Expenditure = None, raw_unemployment_rate = None \<rparr>,
          \<lparr> raw_Year = IntC 2019, raw_Month = IntC 2, raw_Recession = StrC ''n/a'',
            raw_Automobile_Sales = Some 200, raw_Vehicle_Type = None,
            raw_Advertising_Expenditure = None, raw_unemployment_rate = None \<rparr>],
       raw_Automobile_Sales_dtype = Float64,
       raw_Advertising_Expenditure_dtype = Float64 \<rparr>"

text \<open>The same CSV without its \<^verbatim>\<open>Vehicle_Type\<close> column.\<close>

definition sample_raw_no_type :: raw_frame where
  "sample_raw_no_type =
     sample_raw\<lparr> columns := [''Year'', ''Month'', ''Recession'', ''Automobile_Sales''] \<rparr>"

text \<open>
  A CSV that has only its header line, with all seven columns: \<^verbatim>\<open>read_csv\<close> returns a
  frame without rows in which every column has dtype object.
\<close>

definition header_only_raw :: raw_frame where
  "header_only_raw =
     \<lparr> columns = [''Year'', ''Month'', ''Recession'', ''Automobile_Sales'', ''Vehicle_Type'',
                  ''Advertising_Expenditure'', ''unemployment_rate''],
       rows = [],
       raw_Automobile_Sales_dtype = Object,
       raw_Advertising_Expenditure_dtype = Object \<rparr>"

definition header_only_frame :: frame where
  "header_only_frame =
     \<lparr> records = [], Automobile_Sales_dtype = Object, Advertising_Expenditure_dtype = Object \<rparr>"

section \<open>Properties of the primitives\<close>

lemma set_map_filter_key:
  "set (List.map_filter key d) = {k. \<exists>r\<in>set d. key r = Some k}"
  by (induction d) (auto split: option.splits)

lemma groupby_keys: "map fst (groupby key d) = sort (remdups (List.map_filter key d))"
  by (simp add: groupby_def comp_def)

lemma groupby_keys_set: "set (map fst (groupby key d)) = {k. \<exists>r\<in>set d. key r = Some k}"
  by (simp only: groupby_keys set_sort set_remdups set_map_filter_key)

lemma groupby_keys_strict: "sorted_wrt (<) (map fst (groupby key d))"
  by (simp only: groupby_keys strict_sorted_iff sorted_sort distinct_sort distinct_remdups simp_thms)

lemma groupby_group:
  "(k, g) \<in> set (groupby key d) \<Longrightarrow> g = filter (\<lambda>r. key r = Some k) d"
  by (auto simp: groupby_def)

lemma groupby_Nil: "groupby key d = [] \<longleftrightarrow> (\<forall>r\<in>set d. key r = None)"
proof -
  have "groupby key d = [] \<longleftrightarrow> set (map fst (groupby key d)) = {}"
    by simp
  also have "\<dots> \<longleftrightarrow> (\<forall>r\<in>set d. key r = None)"
    unfolding groupby_keys_set
    by (simp add: set_eq_iff) (metis option.exhaust option.distinct(1))
  finally show ?thesis .
qed

lemma groupby_mean_keys: "map fst (groupby_mean key col d) = map fst (groupby key d)"
  by (simp add: groupby_mean_def comp_def case_prod_unfold)

lemma groupby_sum_keys: "map fst (groupby_sum key col d) = map fst (groupby key d)"
  by (simp add: groupby_sum_def comp_def case_prod_unfold)

lemma groupby_mean_row:
  "(k, v) \<in> set (groupby_mean key col d) \<Longrightarrow>
     v = mean_skipna (map col (filter (\<lambda>r. key r = Some k) d))"
  by (auto simp: groupby_mean_def dest: groupby_group)

lemma groupby_sum_row:
  "(k, v) \<in> set (groupby_sum key col d) \<Longrightarrow>
     v = sum_skipna (map col (filter (\<lambda>r. key r = Some k) d))"
  by (auto simp: groupby_sum_def dest: groupby_group)

lemma groupby_mean_Nil: "groupby_mean key col d = [] \<longleftrightarrow> (\<forall>r\<in>set d. key r = None)"
  by (simp add: groupby_mean_def groupby_Nil)

lemma groupby_sum_Nil: "groupby_sum key col d = [] \<longleftrightarrow> (\<forall>r\<in>set d. key r = None)"
  by (simp add: groupby_sum_def groupby_Nil)

lemma groupby_drop_null: "groupby key (filter (\<lambda>r. key r \<noteq> None) d) = groupby key d"
proof -
  have a: "List.map_filter key (filter (\<lambda>r. key r \<noteq> None) d) = List.map_filter key d"
    by (induction d) (auto split: option.splits)
  have b: "filter (\<lambda>r. key r = Some k) (filter (\<lambda>r. key r \<noteq> None) d)
             = filter (\<lambda>r. key r = Some k) d" for k
    by (induction d) auto
  show ?thesis by (simp only: groupby_def a b)
qed

lemma mean_skipna_all_present:
  assumes "vs \<noteq> []" and "\<forall>v\<in>set vs. v \<noteq> None"
  shows "mean_skipna vs = Some (sum_list (map the vs) / real (length vs))"
proof -
  have "List.map_filter id vs = map the vs"
    using assms(2) by (induction vs) (auto split: option.splits)
  with assms(1) show ?thesis by (simp add: mean_skipna_def)
qed

lemma map_filter_id_map: "List.map_filter id (map f xs) = List.map_filter f xs"
  by (induction xs) (auto split: option.splits)

lemma sum_skipna_map: "sum_skipna (map col g) = sum_list (List.map_filter col g)"
  by (simp add: sum_skipna_def map_filter_id_map)

lemma mean_skipna_map:
  "mean_skipna (map col g) =
     (if List.map_filter col g = [] then None
      else Some (sum_list (List.map_filter col g) / real (length (List.map_filter col g))))"
  by (simp add: mean_skipna_def map_filter_id_map Let_def)

lemma cast_all_Inr: "cast_all f xs = Inr ys \<Longrightarrow> map f xs = map Inr ys"
  by (induction xs arbitrary: ys) (auto split: sum.splits)

lemma cast_all_total: "\<forall>x\<in>set xs. \<exists>y. f x = Inr y \<Longrightarrow> \<exists>ys. cast_all f xs = Inr ys"
  by (induction xs) (auto split: sum.splits)

lemma sorted_le_last: "sorted ys \<Longrightarrow> y \<in> set ys \<Longrightarrow> y \<le> last ys"
  by (induction ys) auto

lemma last_sort_Max:
  fixes xs :: "int list"
  assumes "xs \<noteq> []"
  shows "last (sort xs) = Max (set xs)"
proof -
  have ne: "sort xs \<noteq> []" using assms by (metis set_sort set_empty)
  have "Max (set xs) = last (sort xs)"
  proof (rule Max_eqI)
    show "finite (set xs)" by simp
    show "y \<le> last (sort xs)" if "y \<in> set xs" for y
      using that by (intro sorted_le_last) simp_all
    show "last (sort xs) \<in> set xs"
      using last_in_set[OF ne] by simp
  qed
  then show ?thesis by simp
qed

section \<open>Properties of the month ordering\<close>

lemma monthly_sorted_fallback:
  assumes "\<exists>k\<in>set (map fst m). month_num P k = None"
  shows "monthly_sorted P m = m"
proof -
  from assms obtain k where k: "k \<in> set (map fst m)" "month_num P k = None" by blast
  have "\<not> (\<exists>nums. cast_all (str_to_int64 P) (map fst m) = Inr nums)"
  proof
    assume "\<exists>nums. cast_all (str_to_int64 P) (map fst m) = Inr nums"
    then obtain nums where "cast_all (str_to_int64 P) (map fst m) = Inr nums" ..
    then have "map (str_to_int64 P) (map fst m) = map Inr nums" by (rule cast_all_Inr)
    then have "str_to_int64 P k \<in> set (map Inr nums)"
      using k(1) by (metis image_eqI list.set_map)
    then show False using k(2) by (auto simp: month_num_def)
  qed
  then show ?thesis
    by (cases "cast_all (str_to_int64 P) (map fst m)") (auto simp: monthly_sorted_def)
qed

lemma monthly_sorted_numeric:
  assumes "\<forall>k\<in>set (map fst m). month_num P k \<noteq> None"
  shows "sorted_wrt (\<lambda>a b. \<exists>i j. month_num P (fst a) = Some i \<and> month_num P (fst b) = Some j \<and> i \<le> j)
           (monthly_sorted P m)"
    and "mset (monthly_sorted P m) = mset m"
proof -
  have "\<forall>k\<in>set (map fst m). \<exists>n. str_to_int64 P k = Inr n"
  proof
    fix k assume "k \<in> set (map fst m)"
    with assms have "month_num P k \<noteq> None" by blast
    then show "\<exists>n. str_to_int64 P k = Inr n"
      by (cases "str_to_int64 P k") (simp_all add: month_num_def)
  qed
  then obtain nums where nums: "cast_all (str_to_int64 P) (map fst m) = Inr nums"
    using cast_all_total by blast
  then have eq: "map (str_to_int64 P) (map fst m) = map Inr nums" by (rule cast_all_Inr)
  then have len: "length nums = length m"
    by (metis length_map)
  define zs where "zs = sort_key fst (zip nums m)"
  have out: "monthly_sorted P m = map snd zs"
    by (simp add: monthly_sorted_def nums zs_def)
  have key: "month_num P (fst (snd z)) = Some (fst z)" if "z \<in> set zs" for z
  proof -
    from that have "z \<in> set (zip nums m)" by (simp add: zs_def)
    then obtain i where i: "i < length m" "z = (nums ! i, m ! i)"
      using len by (auto simp: set_zip)
    from eq i(1) have "str_to_int64 P (fst (m ! i)) = Inr (nums ! i)"
      by (metis len length_map nth_map)
    then show ?thesis by (simp add: i(2) month_num_def)
  qed
  have "sorted (map fst zs)" by (simp add: zs_def)
  then have "sorted_wrt (\<lambda>a b. fst a \<le> fst b) zs"
    by (simp add: sorted_wrt_map)
  then have "sorted_wrt (\<lambda>a b. \<exists>i j. month_num P (fst (snd a)) = Some i
                \<and> month_num P (fst (snd b)) = Some j \<and> i \<le> j) zs"
    by (rule sorted_wrt_mono_rel[rotated]) (simp add: key)
  then show "sorted_wrt (\<lambda>a b. \<exists>i j. month_num P (fst a) = Some i \<and> month_num P (fst b) = Some j \<and> i \<le> j)
           (monthly_sorted P m)"
    by (simp add: out sorted_wrt_map)
  have "mset (map snd zs) = mset (map snd (zip nums m))"
    by (simp add: zs_def)
  then show "mset (monthly_sorted P m) = mset m"
    by (simp add: out len)
qed

section \<open>Properties of the callbacks\<close>

lemma yearly_figures_cases:
  "yearly_figures P fr year_value =
     (if Automobile_Sales_dtype fr = Object \<or> Advertising_Expenditure_dtype fr = Object
      then Inl TypeError
      else Inr
        (if yearly (records fr) = [] then empty_fig ''Yearly Automobile Sales (Average)''
         else Line_by_year (yearly (records fr)) ''Yearly Automobile Sales (Average over Months)'',
         if monthly_sorted P (monthly (dff (records fr) year_value)) = []
         then empty_fig (year_title ''Total Monthly Automobile Sales'' year_value)
         else Line_by_month (monthly_sorted P (monthly (dff (records fr) year_value)))
                (year_title ''Total Monthly Automobile Sales'' year_value),
         if by_type (dff (records fr) year_value) = []
         then empty_fig (year_title ''Average Vehicles Sold by Vehicle Type'' year_value)
         else Bar_by_type (by_type (dff (records fr) year_value))
                (year_title ''Average Vehicles Sold by Vehicle Type'' year_value),
         if adv (dff (records fr) year_value) = []
         then empty_fig (year_title ''Ad Expenditure Share by Vehicle Type'' year_value)
         else Pie_by_type (adv (dff (records fr) year_value))
                (year_title ''Ad Expenditure Share by Vehicle Type'' year_value)))"
  by (simp add: yearly_figures_def Let_def)

lemma update_charts_yearly:
  "update_charts P g ''Yearly Statistics'' year_value =
     yearly_figures P (df g)
       (if year_value = None \<and> years g \<noteq> [] then Some (last (years g)) else year_value)"
  by (simp add: update_charts_def)

lemma update_charts_other:
  "report_type \<noteq> ''Yearly Statistics'' \<Longrightarrow>
     update_charts P g report_type year_value = recession_figures (df g)"
  by (simp add: update_charts_def)

lemma rec_Nil: "\<forall>r\<in>set d. Recession r \<noteq> 1 \<Longrightarrow> rec d = []"
  by (simp add: rec_def filter_empty_conv)

text \<open>
  On a frame whose two aggregated columns are float64 and that has no row with
  \<^verbatim>\<open>Recession == 1\<close>, the recession branch returns the four placeholders.
\<close>

lemma recession_figures_no_rows:
  assumes "\<forall>r\<in>set (records fr). Recession r \<noteq> 1"
    and "Automobile_Sales_dtype fr = Float64"
    and "Advertising_Expenditure_dtype fr = Float64"
  shows "recession_figures fr =
           Inr (No_data ''Avg Automobile Sales during Recession (Year-wise)'',
                No_data ''Avg Vehicles Sold by Vehicle Type (Recession)'',
                No_data ''Ad Expenditure Share by Vehicle Type (Recession)'',
                No_data ''Unemployment vs Sales (Recession)'')"
proof -
  have r: "rec (records fr) = []"
    using assms(1) by (rule rec_Nil)
  have a: "rec_yearly (records fr) = []"
    by (simp add: rec_yearly_def r groupby_mean_Nil)
  have b: "rec_type_avg (records fr) = []"
    by (simp add: rec_type_avg_def r groupby_mean_Nil)
  have c: "rec_adv (records fr) = []"
    by (simp add: rec_adv_def r groupby_sum_Nil)
  have e: "rec_u (records fr) = []"
    by (simp add: rec_u_def r)
  show ?thesis
    by (simp add: recession_figures_def Let_def empty_fig_def a b c e assms(2,3))
qed

section \<open>The claims\<close>

text \<open>
  C1. In Yearly mode the monthly totals are computed from the rows whose \<^verbatim>\<open>Year\<close> is the
  selected year, one row per distinct \<^verbatim>\<open>Month\<close>, whose value is the sum of the
  \<^verbatim>\<open>Automobile_Sales\<close> values of the rows of that month. A label is numeric when \<^verbatim>\<open>int\<close>
  reads it (the parameter \<open>P\<close>) and the integer fits 64 bits. When every month label of
  the result is numeric, the rows come out in ascending order of that integer, as a
  rearrangement of the grouped rows; when some label is not, the grouped rows are kept in
  the order the grouping gave them. The failed conversion is caught: chart slot 2 is built
  from the result in both cases, and the callback raises only on a frame with a column of
  dtype object, whatever the labels.
\<close>

theorem monthly_totals_order:
  fixes P :: "string \<Rightarrow> int option" and g :: globals and y :: int
  defines "sel \<equiv> dff (records (df g)) (Some y)"
  defines "m \<equiv> monthly sel"
  defines "out \<equiv> monthly_sorted P m"
  shows "sel = filter (\<lambda>r. Year r = Some y) (records (df g))
    \<and> distinct (map fst m)
    \<and> set (map fst m) = Month ` set sel
    \<and> (\<forall>(k, v)\<in>set m.
          v = sum_list (List.map_filter Automobile_Sales (filter (\<lambda>r. Month r = k) sel)))
    \<and> ((\<forall>k\<in>set (map fst m). month_num P k \<noteq> None) \<longrightarrow>
          sorted_wrt (\<lambda>a b. \<exists>i j. month_num P (fst a) = Some i \<and> month_num P (fst b) = Some j
                               \<and> i \<le> j) out
          \<and> mset out = mset m)
    \<and> ((\<exists>k\<in>set (map fst m). month_num P k = None) \<longrightarrow> out = m)
    \<and> slot2 (update_charts P g ''Yearly Statistics'' (Some y)) =
          (if Automobile_Sales_dtype (df g) = Object \<or> Advertising_Expenditure_dtype (df g) = Object
           then Inl TypeError
           else Inr (if out = []
                     then empty_fig (year_title ''Total Monthly Automobile Sales'' (Some y))
                     else Line_by_month out
                            (year_title ''Total Monthly Automobile Sales'' (Some y))))"
proof -
  have keys: "map fst m = map fst (groupby (\<lambda>r. Some (Month r)) sel)"
    by (simp add: m_def monthly_def groupby_sum_keys)
  have 1: "sel = filter (\<lambda>r. Year r = Some y) (records (df g))"
    by (simp add: sel_def dff_def)
  have 2: "distinct (map fst m)"
    using groupby_keys_strict[of "\<lambda>r. Some (Month r)" sel]
    by (simp add: keys strict_sorted_iff)
  have 3: "set (map fst m) = Month ` set sel"
    unfolding keys groupby_keys_set by auto
  have 4: "\<forall>(k, v)\<in>set m.
          v = sum_list (List.map_filter Automobile_Sales (filter (\<lambda>r. Month r = k) sel))"
    using groupby_sum_row[of _ _ "\<lambda>r. Some (Month r)" Automobile_Sales sel]
    by (auto simp: m_def monthly_def sum_skipna_map)
  have 5: "(\<forall>k\<in>set (map fst m). month_num P k \<noteq> None) \<longrightarrow>
          sorted_wrt (\<lambda>a b. \<exists>i j. month_num P (fst a) = Some i \<and> month_num P (fst b) = Some j
                               \<and> i \<le> j) out
          \<and> mset out = mset m"
    unfolding out_def using monthly_sorted_numeric[of m P] by blast
  have 6: "(\<exists>k\<in>set (map fst m). month_num P k = None) \<longrightarrow> out = m"
    unfolding out_def using monthly_sorted_fallback[of m P] by blast
  have 7: "slot2 (update_charts P g ''Yearly Statistics'' (Some y)) =
          (if Automobile_Sales_dtype (df g) = Object \<or> Advertising_Expenditure_dtype (df g) = Object
           then Inl TypeError
           else Inr (if out = []
                     then empty_fig (year_title ''Total Monthly Automobile Sales'' (Some y))
                     else Line_by_month out
                            (year_title ''Total Monthly Automobile Sales'' (Some y))))"
    by (simp add: update_charts_yearly yearly_figures_cases slot2_def out_def m_def sel_def)
  from 1 2 3 4 5 6 7 show ?thesis by (intro conjI)
qed

theorem monthly_totals_order_witness:
  "map (month_num ascii_int)
       (map fst (monthly (dff (records (df (startup sample_frame))) (Some 2019))))
     = [Some 1, Some 10, Some 2]
   \<and> monthly (dff (records (df (startup sample_frame))) (Some 2019))
       = [(''1'', 100), (''10'', 300), (''2'', 240)]
   \<and> List.map_filter Automobile_Sales
        (filter (\<lambda>r. Month r = ''2'') (dff (records (df (startup sample_frame))) (Some 2019)))
       = [200, 40]
   \<and> 240 = sum_list (List.map_filter Automobile_Sales
        (filter (\<lambda>r. Month r = ''2'') (dff (records (df (startup sample_frame))) (Some 2019))))
   \<and> monthly_sorted ascii_int (monthly (dff (records (df (startup sample_frame))) (Some 2019)))
       = [(''1'', 100), (''2'', 240), (''10'', 300)]
   \<and> sorted_wrt (\<lambda>a b. \<exists>i j. month_num ascii_int (fst a) = Some i
                          \<and> month_num ascii_int (fst b) = Some j \<and> i \<le> j)
       (monthly_sorted ascii_int (monthly (dff (records (df (startup sample_frame))) (Some 2019))))
   \<and> (\<exists>k\<in>set (map fst (monthly (dff (records (df (startup sample_frame))) (Some 2020)))).
         month_num ascii_int k = None)
   \<and> monthly_sorted ascii_int (monthly (dff (records (df (startup sample_frame))) (Some 2020)))
       = monthly (dff (records (df (startup sample_frame))) (Some 2020))
   \<and> monthly (dff (records (df (startup sample_frame))) (Some 2020)) = [(''3'', 150), (''Jan'', 50)]
   \<and> slot2 (update_charts ascii_int (startup sample_frame) ''Yearly Statistics'' (Some 2019))
       = Inr (Line_by_month [(''1'', 100), (''2'', 240), (''10'', 300)]
                (year_title ''Total Monthly Automobile Sales'' (Some 2019)))"
proof -
  have sel19: "dff (records (df (startup sample_frame))) (Some 2019) = take 4 sample_df"
    by (simp add: startup_def sample_frame_def sample_df_def dff_def)
  have m19: "monthly (dff (records (df (startup sample_frame))) (Some 2019))
       = [(''1'', 100), (''10'', 300), (''2'', 240)]"
    by (simp add: sel19 sample_df_def monthly_def groupby_sum_def groupby_def sum_skipna_def)
  have m20: "monthly (dff (records (df (startup sample_frame))) (Some 2020))
       = [(''3'', 150), (''Jan'', 50)]"
    by (simp add: startup_def sample_frame_def sample_df_def dff_def monthly_def groupby_sum_def
          groupby_def sum_skipna_def)
  have vals: "List.map_filter Automobile_Sales
        (filter (\<lambda>r. Month r = ''2'') (dff (records (df (startup sample_frame))) (Some 2019)))
       = [200, 40]"
    by (simp add: sel19 sample_df_def)
  have k19: "map (month_num ascii_int)
       (map fst (monthly (dff (records (df (startup sample_frame))) (Some 2019))))
     = [Some 1, Some 10, Some 2]"
    unfolding m19 by code_simp
  have n19: "\<forall>k\<in>set (map fst (monthly (dff (records (df (startup sample_frame))) (Some 2019)))).
      month_num ascii_int k \<noteq> None"
    unfolding m19 by code_simp
  have n20: "\<exists>k\<in>set (map fst (monthly (dff (records (df (startup sample_frame))) (Some 2020)))).
      month_num ascii_int k = None"
    unfolding m20 by code_simp
  have s19: "monthly_sorted ascii_int (monthly (dff (records (df (startup sample_frame))) (Some 2019)))
       = [(''1'', 100), (''2'', 240), (''10'', 300)]"
    unfolding m19 by code_simp
  note th19 = monthly_totals_order[of "startup sample_frame" 2019 ascii_int]
  note th20 = monthly_totals_order[of "startup sample_frame" 2020 ascii_int]
  have mem: "(''2'', 240) \<in> set (monthly (dff (records (df (startup sample_frame))) (Some 2019)))"
    by (simp add: m19)
  note rows = th19[THEN conjunct2, THEN conjunct2, THEN conjunct2, THEN conjunct1]
  have total: "240 = sum_list (List.map_filter Automobile_Sales
        (filter (\<lambda>r. Month r = ''2'') (dff (records (df (startup sample_frame))) (Some 2019))))"
    by (rule bspec[OF rows mem, unfolded prod.case])
  note num = th19[THEN conjunct2, THEN conjunct2, THEN conjunct2, THEN conjunct2, THEN conjunct1]
  have a: "sorted_wrt (\<lambda>a b. \<exists>i j. month_num ascii_int (fst a) = Some i
                          \<and> month_num ascii_int (fst b) = Some j \<and> i \<le> j)
       (monthly_sorted ascii_int (monthly (dff (records (df (startup sample_frame))) (Some 2019))))"
    by (rule num[THEN mp, OF n19, THEN conjunct1])
  note fb = th20[THEN conjunct2, THEN conjunct2, THEN conjunct2, THEN conjunct2, THEN conjunct2,
      THEN conjunct1]
  have b: "monthly_sorted ascii_int (monthly (dff (records (df (startup sample_frame))) (Some 2020)))
       = monthly (dff (records (df (startup sample_frame))) (Some 2020))"
    by (rule fb[THEN mp, OF n20])
  note fig = th19[THEN conjunct2, THEN conjunct2, THEN conjunct2, THEN conjunct2, THEN conjunct2,
      THEN conjunct2]
  have f: "slot2 (update_charts ascii_int (startup sample_frame) ''Yearly Statistics'' (Some 2019))
       = Inr (Line_by_month [(''1'', 100), (''2'', 240), (''10'', 300)]
                (year_title ''Total Monthly Automobile Sales'' (Some 2019)))"
    unfolding fig s19 by (simp add: startup_def sample_frame_def)
  from k19 m19 vals total s19 a n20 b m20 f show ?thesis by (intro conjI)
qed

text \<open>
  C2. For a year \<open>Y\<close>, the Yearly-mode average by vehicle type (chart slot 3) has exactly
  one row per distinct \<^verbatim>\<open>Vehicle_Type\<close> value that occurs among the rows with \<^verbatim>\<open>Year == Y\<close>,
  and the value of a row is the mean of \<^verbatim>\<open>Automobile_Sales\<close> over the rows of that year and
  type: the pandas mean, which is the sum of the sales divided by the number of rows when
  every row of the subgroup has a sales value. The statement holds for every \<open>Y\<close>, present
  in the frame or not. Chart slot 3 is built from these rows whenever the callback returns,
  which it does unless a column has dtype object.
\<close>

theorem avg_by_vehicle_type:
  fixes P :: "string \<Rightarrow> int option" and g :: globals and Y :: int
  defines "d \<equiv> records (df g)"
  defines "sel \<equiv> dff d (Some Y)"
  shows "distinct (map fst (by_type sel))
    \<and> set (map fst (by_type sel))
        = {t. \<exists>r\<in>set d. Year r = Some Y \<and> Vehicle_Type r = Some t}
    \<and> (\<forall>(t, v)\<in>set (by_type sel).
          v = mean_skipna (map Automobile_Sales
                (filter (\<lambda>r. Year r = Some Y \<and> Vehicle_Type r = Some t) d))
          \<and> ((\<forall>r\<in>set d. Year r = Some Y \<and> Vehicle_Type r = Some t
                  \<longrightarrow> Automobile_Sales r \<noteq> None) \<longrightarrow>
               v = Some ((\<Sum>r\<leftarrow>filter (\<lambda>r. Year r = Some Y \<and> Vehicle_Type r = Some t) d.
                            the (Automobile_Sales r))
                         / real (length (filter (\<lambda>r. Year r = Some Y \<and> Vehicle_Type r = Some t)
                                           d)))))
    \<and> slot3 (update_charts P g ''Yearly Statistics'' (Some Y)) =
          (if Automobile_Sales_dtype (df g) = Object \<or> Advertising_Expenditure_dtype (df g) = Object
           then Inl TypeError
           else Inr (if by_type sel = []
                     then empty_fig (year_title ''Average Vehicles Sold by Vehicle Type'' (Some Y))
                     else Bar_by_type (by_type sel)
                            (year_title ''Average Vehicles Sold by Vehicle Type'' (Some Y))))"
proof -
  let ?grp = "\<lambda>t. filter (\<lambda>r. Year r = Some Y \<and> Vehicle_Type r = Some t) d"
  have keys: "map fst (by_type sel) = map fst (groupby Vehicle_Type sel)"
    by (simp add: by_type_def groupby_mean_keys)
  have grp: "filter (\<lambda>r. Vehicle_Type r = Some t) sel = ?grp t" for t
    by (simp add: sel_def dff_def conj_commute)
  have 1: "distinct (map fst (by_type sel))"
    using groupby_keys_strict[of Vehicle_Type sel] by (simp add: keys strict_sorted_iff)
  have 2: "set (map fst (by_type sel))
        = {t. \<exists>r\<in>set d. Year r = Some Y \<and> Vehicle_Type r = Some t}"
    unfolding keys groupby_keys_set by (auto simp: sel_def dff_def)
  have 3: "v = mean_skipna (map Automobile_Sales (?grp t))
          \<and> ((\<forall>r\<in>set d. Year r = Some Y \<and> Vehicle_Type r = Some t
                  \<longrightarrow> Automobile_Sales r \<noteq> None) \<longrightarrow>
               v = Some ((\<Sum>r\<leftarrow>?grp t. the (Automobile_Sales r)) / real (length (?grp t))))"
    if tv: "(t, v) \<in> set (by_type sel)" for t v
  proof -
    have v: "v = mean_skipna (map Automobile_Sales (?grp t))"
      using groupby_mean_row[OF tv[unfolded by_type_def]] by (simp add: grp)
    from tv have "t \<in> set (map fst (by_type sel))" by force
    then have ne: "?grp t \<noteq> []"
      unfolding 2 by (auto simp: filter_empty_conv)
    have "v = Some ((\<Sum>r\<leftarrow>?grp t. the (Automobile_Sales r)) / real (length (?grp t)))"
      if "\<forall>r\<in>set d. Year r = Some Y \<and> Vehicle_Type r = Some t \<longrightarrow> Automobile_Sales r \<noteq> None"
    proof -
      from that have "\<forall>x\<in>set (map Automobile_Sales (?grp t)). x \<noteq> None" by auto
      from mean_skipna_all_present[OF _ this] ne
      show ?thesis by (simp add: v comp_def)
    qed
    with v show ?thesis by blast
  qed
  have 4: "slot3 (update_charts P g ''Yearly Statistics'' (Some Y)) =
          (if Automobile_Sales_dtype (df g) = Object \<or> Advertising_Expenditure_dtype (df g) = Object
           then Inl TypeError
           else Inr (if by_type sel = []
                     then empty_fig (year_title ''Average Vehicles Sold by Vehicle Type'' (Some Y))
                     else Bar_by_type (by_type sel)
                            (year_title ''Average Vehicles Sold by Vehicle Type'' (Some Y))))"
    by (simp add: update_charts_yearly yearly_figures_cases slot3_def sel_def d_def)
  from 3 have rows: "\<forall>(t, v)\<in>set (by_type sel).
          v = mean_skipna (map Automobile_Sales (?grp t))
          \<and> ((\<forall>r\<in>set d. Year r = Some Y \<and> Vehicle_Type r = Some t
                  \<longrightarrow> Automobile_Sales r \<noteq> None) \<longrightarrow>
               v = Some ((\<Sum>r\<leftarrow>?grp t. the (Automobile_Sales r)) / real (length (?grp t))))"
    by blast
  from 1 2 rows 4 show ?thesis by (intro conjI)
qed

theorem avg_by_vehicle_type_witness:
  "by_type (dff (records (df (startup sample_frame))) (Some 2019))
     = [(''A'', Some 150), (''B'', Some 170)]
   \<and> Some 150 = mean_skipna (map Automobile_Sales
        (filter (\<lambda>r. Year r = Some 2019 \<and> Vehicle_Type r = Some ''A'')
           (records (df (startup sample_frame)))))
   \<and> Some 150 =
       Some ((\<Sum>r\<leftarrow>filter (\<lambda>r. Year r = Some 2019 \<and> Vehicle_Type r = Some ''A'')
                    (records (df (startup sample_frame))). the (Automobile_Sales r))
             / real (length (filter (\<lambda>r. Year r = Some 2019 \<and> Vehicle_Type r = Some ''A'')
                               (records (df (startup sample_frame))))))
   \<and> map Automobile_Sales
        (filter (\<lambda>r. Year r = Some 2019 \<and> Vehicle_Type r = Some ''A'')
           (records (df (startup sample_frame))))
       = [Some 200, Some 100]
   \<and> slot3 (update_charts ascii_int (startup sample_frame) ''Yearly Statistics'' (Some 2019))
       = Inr (Bar_by_type [(''A'', Some 150), (''B'', Some 170)]
                (year_title ''Average Vehicles Sold by Vehicle Type'' (Some 2019)))"
proof -
  have bt: "by_type (dff (records (df (startup sample_frame))) (Some 2019))
     = [(''A'', Some 150), (''B'', Some 170)]"
    by (simp add: by_type_def dff_def startup_def sample_frame_def sample_df_def groupby_mean_def
          groupby_def mean_skipna_def)
  then have mem: "(''A'', Some 150)
      \<in> set (by_type (dff (records (df (startup sample_frame))) (Some 2019)))"
    by simp
  have pres: "\<forall>r\<in>set (records (df (startup sample_frame))).
      Year r = Some 2019 \<and> Vehicle_Type r = Some ''A'' \<longrightarrow> Automobile_Sales r \<noteq> None"
    by (simp add: startup_def sample_frame_def sample_df_def)
  have vals: "map Automobile_Sales
        (filter (\<lambda>r. Year r = Some 2019 \<and> Vehicle_Type r = Some ''A'')
           (records (df (startup sample_frame))))
       = [Some 200, Some 100]"
    by (simp add: startup_def sample_frame_def sample_df_def)
  note th = avg_by_vehicle_type[of "startup sample_frame" 2019 ascii_int]
  note rows = th[THEN conjunct2, THEN conjunct2, THEN conjunct1]
  have row: "Some 150 = mean_skipna (map Automobile_Sales
        (filter (\<lambda>r. Year r = Some 2019 \<and> Vehicle_Type r = Some ''A'')
           (records (df (startup sample_frame)))))
      \<and> ((\<forall>r\<in>set (records (df (startup sample_frame))).
              Year r = Some 2019 \<and> Vehicle_Type r = Some ''A'' \<longrightarrow> Automobile_Sales r \<noteq> None) \<longrightarrow>
          Some 150 =
            Some ((\<Sum>r\<leftarrow>filter (\<lambda>r. Year r = Some 2019 \<and> Vehicle_Type r = Some ''A'')
                    (records (df (startup sample_frame))). the (Automobile_Sales r))
             / real (length (filter (\<lambda>r. Year r = Some 2019 \<and> Vehicle_Type r = Some ''A'')
                               (records (df (startup sample_frame)))))))"
    by (rule bspec[OF rows mem, unfolded prod.case])
  from row pres have plain: "Some 150 =
            Some ((\<Sum>r\<leftarrow>filter (\<lambda>r. Year r = Some 2019 \<and> Vehicle_Type r = Some ''A'')
                    (records (df (startup sample_frame))). the (Automobile_Sales r))
             / real (length (filter (\<lambda>r. Year r = Some 2019 \<and> Vehicle_Type r = Some ''A'')
                               (records (df (startup sample_frame))))))"
    by (rule conjunct2[THEN mp])
  note fig = th[THEN conjunct2, THEN conjunct2, THEN conjunct2]
  have f: "slot3 (update_charts ascii_int (startup sample_frame) ''Yearly Statistics'' (Some 2019))
       = Inr (Bar_by_type [(''A'', Some 150), (''B'', Some 170)]
                (year_title ''Average Vehicles Sold by Vehicle Type'' (Some 2019)))"
    unfolding fig bt by (simp add: startup_def sample_frame_def)
  from bt conjunct1[OF row] plain vals f show ?thesis
    by (intro conjI)
qed

text \<open>
  C3. In Yearly mode the yearly average (chart slot 1) is computed on the whole frame,
  whatever year is selected: its rows are the years that occur in the frame, in strictly
  ascending order, each with the mean of \<^verbatim>\<open>Automobile_Sales\<close> over all rows of that year:
  the sum of the sales values of the year divided by their number, which is the sum over
  the rows divided by the number of rows when every row of the year has a sales value.
  Chart slot 1 is built from these rows for every selected year. On a frame with a column
  of dtype object the callback raises instead, for every selected year alike.
\<close>

theorem yearly_average_whole_frame:
  fixes P :: "string \<Rightarrow> int option" and g :: globals
  defines "d \<equiv> records (df g)"
  shows "sorted_wrt (<) (map fst (yearly d))
   \<and> set (map fst (yearly d)) = {y. \<exists>r\<in>set d. Year r = Some y}
   \<and> (\<forall>(y, v)\<in>set (yearly d).
         v = (if List.map_filter Automobile_Sales (filter (\<lambda>r. Year r = Some y) d) = [] then None
              else Some (sum_list (List.map_filter Automobile_Sales (filter (\<lambda>r. Year r = Some y) d))
                         / real (length (List.map_filter Automobile_Sales
                                           (filter (\<lambda>r. Year r = Some y) d)))))
         \<and> ((\<forall>r\<in>set d. Year r = Some y \<longrightarrow> Automobile_Sales r \<noteq> None) \<longrightarrow>
              v = Some ((\<Sum>r\<leftarrow>filter (\<lambda>r. Year r = Some y) d. the (Automobile_Sales r))
                        / real (length (filter (\<lambda>r. Year r = Some y) d)))))
   \<and> slot1 (update_charts P g ''Yearly Statistics'' year_value) =
         (if Automobile_Sales_dtype (df g) = Object \<or> Advertising_Expenditure_dtype (df g) = Object
          then Inl TypeError
          else Inr (if yearly d = [] then empty_fig ''Yearly Automobile Sales (Average)''
                    else Line_by_year (yearly d) ''Yearly Automobile Sales (Average over Months)''))
   \<and> slot1 (update_charts P g ''Yearly Statistics'' year_value)
       = slot1 (update_charts P g ''Yearly Statistics'' other_year)"
proof -
  let ?grp = "\<lambda>y. filter (\<lambda>r. Year r = Some y) d"
  have keys: "map fst (yearly d) = map fst (groupby Year d)"
    by (simp add: yearly_def groupby_mean_keys)
  have 1: "sorted_wrt (<) (map fst (yearly d))"
    unfolding keys by (rule groupby_keys_strict)
  have 2: "set (map fst (yearly d)) = {y. \<exists>r\<in>set d. Year r = Some y}"
    unfolding keys by (rule groupby_keys_set)
  have 3: "v = (if List.map_filter Automobile_Sales (?grp y) = [] then None
              else Some (sum_list (List.map_filter Automobile_Sales (?grp y))
                         / real (length (List.map_filter Automobile_Sales (?grp y)))))
         \<and> ((\<forall>r\<in>set d. Year r = Some y \<longrightarrow> Automobile_Sales r \<noteq> None) \<longrightarrow>
              v = Some ((\<Sum>r\<leftarrow>?grp y. the (Automobile_Sales r)) / real (length (?grp y))))"
    if yv: "(y, v) \<in> set (yearly d)" for y v
  proof -
    have v: "v = mean_skipna (map Automobile_Sales (?grp y))"
      using groupby_mean_row[OF yv[unfolded yearly_def]] .
    from yv have "y \<in> set (map fst (yearly d))" by force
    then have ne: "?grp y \<noteq> []"
      unfolding 2 by (auto simp: filter_empty_conv)
    have "v = Some ((\<Sum>r\<leftarrow>?grp y. the (Automobile_Sales r)) / real (length (?grp y)))"
      if "\<forall>r\<in>set d. Year r = Some y \<longrightarrow> Automobile_Sales r \<noteq> None"
    proof -
      from that have "\<forall>x\<in>set (map Automobile_Sales (?grp y)). x \<noteq> None" by auto
      from mean_skipna_all_present[OF _ this] ne
      show ?thesis by (simp add: v comp_def)
    qed
    moreover have "v = (if List.map_filter Automobile_Sales (?grp y) = [] then None
              else Some (sum_list (List.map_filter Automobile_Sales (?grp y))
                         / real (length (List.map_filter Automobile_Sales (?grp y)))))"
      unfolding v by (rule mean_skipna_map)
    ultimately show ?thesis by blast
  qed
  have 4: "slot1 (update_charts P g ''Yearly Statistics'' yv) =
         (if Automobile_Sales_dtype (df g) = Object \<or> Advertising_Expenditure_dtype (df g) = Object
          then Inl TypeError
          else Inr (if yearly d = [] then empty_fig ''Yearly Automobile Sales (Average)''
                    else Line_by_year (yearly d) ''Yearly Automobile Sales (Average over Months)''))"
    for yv
    by (simp add: update_charts_yearly yearly_figures_cases slot1_def d_def)
  have 5: "slot1 (update_charts P g ''Yearly Statistics'' year_value)
       = slot1 (update_charts P g ''Yearly Statistics'' other_year)"
    by (simp only: 4)
  from 3 have rows: "\<forall>(y, v)\<in>set (yearly d).
         v = (if List.map_filter Automobile_Sales (?grp y) = [] then None
              else Some (sum_list (List.map_filter Automobile_Sales (?grp y))
                         / real (length (List.map_filter Automobile_Sales (?grp y)))))
         \<and> ((\<forall>r\<in>set d. Year r = Some y \<longrightarrow> Automobile_Sales r \<noteq> None) \<longrightarrow>
              v = Some ((\<Sum>r\<leftarrow>?grp y. the (Automobile_Sales r)) / real (length (?grp y))))"
    by blast
  from 1 2 rows 4[of year_value] 5 show ?thesis by (intro conjI)
qed

theorem yearly_average_whole_frame_witness:
  "yearly (records (df (startup sample_frame))) = [(2019, Some 160), (2020, Some 100)]
   \<and> map Automobile_Sales
        (filter (\<lambda>r. Year r = Some 2019) (records (df (startup sample_frame))))
       = [Some 300, Some 200, Some 100, Some 40]
   \<and> Some 160 =
       Some ((\<Sum>r\<leftarrow>filter (\<lambda>r. Year r = Some 2019) (records (df (startup sample_frame))).
                 the (Automobile_Sales r))
             / real (length (filter (\<lambda>r. Year r = Some 2019)
                               (records (df (startup sample_frame))))))
   \<and> slot1 (update_charts ascii_int (startup sample_frame) ''Yearly Statistics'' (Some 2020))
       = Inr (Line_by_year [(2019, Some 160), (2020, Some 100)]
                ''Yearly Automobile Sales (Average over Months)'')
   \<and> slot1 (update_charts ascii_int (startup sample_frame) ''Yearly Statistics'' (Some 2020))
       = slot1 (update_charts ascii_int (startup sample_frame) ''Yearly Statistics'' (Some 2019))"
proof -
  have ye: "yearly (records (df (startup sample_frame))) = [(2019, Some 160), (2020, Some 100)]"
    by (simp add: yearly_def startup_def sample_frame_def sample_df_def groupby_mean_def
          groupby_def mean_skipna_def)
  then have mem: "(2019, Some 160) \<in> set (yearly (records (df (startup sample_frame))))"
    by simp
  have pres: "\<forall>r\<in>set (records (df (startup sample_frame))).
      Year r = Some 2019 \<longrightarrow> Automobile_Sales r \<noteq> None"
    by (simp add: startup_def sample_frame_def sample_df_def)
  have vals: "map Automobile_Sales
        (filter (\<lambda>r. Year r = Some 2019) (records (df (startup sample_frame))))
       = [Some 300, Some 200, Some 100, Some 40]"
    by (simp add: startup_def sample_frame_def sample_df_def)
  note th = yearly_average_whole_frame[of "startup sample_frame" ascii_int "Some 2020" "Some 2019"]
  note rows = th[THEN conjunct2, THEN conjunct2, THEN conjunct1]
  note row = bspec[OF rows mem, unfolded prod.case]
  have plain: "Some 160 =
       Some ((\<Sum>r\<leftarrow>filter (\<lambda>r. Year r = Some 2019) (records (df (startup sample_frame))).
                 the (Automobile_Sales r))
             / real (length (filter (\<lambda>r. Year r = Some 2019)
                               (records (df (startup sample_frame))))))"
    by (rule row[THEN conjunct2, THEN mp, OF pres])
  note fig = th[THEN conjunct2, THEN conjunct2, THEN conjunct2, THEN conjunct1]
  have fig1: "slot1 (update_charts ascii_int (startup sample_frame) ''Yearly Statistics'' (Some 2020))
       = Inr (Line_by_year [(2019, Some 160), (2020, Some 100)]
                ''Yearly Automobile Sales (Average over Months)'')"
    unfolding fig ye by (simp add: startup_def sample_frame_def)
  note same = th[THEN conjunct2, THEN conjunct2, THEN conjunct2, THEN conjunct2]
  from ye vals plain fig1 same show ?thesis by (intro conjI)
qed

text \<open>
  C9. Rows whose \<^verbatim>\<open>Year\<close> is null take no part in the yearly average of chart slot 1 nor
  in the year selector: every group of the grouping by \<^verbatim>\<open>Year\<close> is the set of rows of one
  non-null year, so the aggregation is the same with the null-year rows removed, and the
  dropdown options are the distinct non-null years, in ascending order, each labelled with
  its decimal text.
\<close>

theorem null_year_excluded:
  fixes fr :: frame
  defines "d \<equiv> records fr"
  shows "yearly d = yearly (filter (\<lambda>r. Year r \<noteq> None) d)
   \<and> (\<forall>(y, grp)\<in>set (groupby Year d). grp = filter (\<lambda>r. Year r = Some y) d)
   \<and> set (map fst (yearly d)) = {y. \<exists>r\<in>set d. Year r = Some y}
   \<and> year_dd_options (startup fr) = map (\<lambda>y. (str_int y, y)) (years_of d)
   \<and> distinct (years_of d)
   \<and> sorted (years_of d)
   \<and> set (years_of d) = {y. \<exists>r\<in>set d. Year r = Some y}
   \<and> years_of (filter (\<lambda>r. Year r \<noteq> None) d) = years_of d"
proof -
  have 1: "yearly d = yearly (filter (\<lambda>r. Year r \<noteq> None) d)"
    by (simp only: yearly_def groupby_mean_def groupby_drop_null)
  have 2: "\<forall>(y, grp)\<in>set (groupby Year d). grp = filter (\<lambda>r. Year r = Some y) d"
    using groupby_group[of _ _ Year d] by blast
  have 3: "set (map fst (yearly d)) = {y. \<exists>r\<in>set d. Year r = Some y}"
    by (simp only: yearly_def groupby_mean_keys groupby_keys_set)
  have 4: "year_dd_options (startup fr) = map (\<lambda>y. (str_int y, y)) (years_of d)"
    by (simp add: year_dd_options_def startup_def d_def)
  have 5: "distinct (years_of d)" and 6: "sorted (years_of d)"
    by (simp_all add: years_of_def)
  have 7: "set (years_of d) = {y. \<exists>r\<in>set d. Year r = Some y}"
    by (simp only: years_of_def set_sort set_remdups set_map_filter_key)
  have "List.map_filter Year (filter (\<lambda>r. Year r \<noteq> None) d) = List.map_filter Year d"
    by (induction d) (auto split: option.splits)
  then have 8: "years_of (filter (\<lambda>r. Year r \<noteq> None) d) = years_of d"
    by (simp only: years_of_def)
  from 1 2 3 4 5 6 7 8 show ?thesis by (intro conjI)
qed

theorem null_year_excluded_witness:
  "map Year (records sample_frame)
     = [Some 2019, Some 2019, Some 2019, Some 2019, Some 2020, Some 2020, None]
   \<and> yearly (records sample_frame) = yearly (filter (\<lambda>r. Year r \<noteq> None) (records sample_frame))
   \<and> yearly (records sample_frame) = [(2019, Some 160), (2020, Some 100)]
   \<and> year_dd_options (startup sample_frame) = [(''2019'', 2019), (''2020'', 2020)]"
proof -
  have ys: "map Year (records sample_frame)
     = [Some 2019, Some 2019, Some 2019, Some 2019, Some 2020, Some 2020, None]"
    by (simp add: sample_frame_def sample_df_def)
  note th = null_year_excluded[of sample_frame]
  have ye: "yearly (records sample_frame) = [(2019, Some 160), (2020, Some 100)]"
    by (simp add: yearly_def sample_frame_def sample_df_def groupby_mean_def groupby_def
          mean_skipna_def)
  have yo: "years_of (records sample_frame) = [2019, 2020]"
    by (simp add: years_of_def sample_frame_def sample_df_def)
  have s19: "str_int 2019 = ''2019''" and s20: "str_int 2020 = ''2020''"
    by code_simp+
  have opts: "year_dd_options (startup sample_frame) = [(''2019'', 2019), (''2020'', 2020)]"
    unfolding th[THEN conjunct2, THEN conjunct2, THEN conjunct2, THEN conjunct1] yo
    by (simp add: s19 s20)
  from ys th[THEN conjunct1] ye opts show ?thesis by (intro conjI)
qed

text \<open>
  C7. When some row has a year, the year dropdown starts at the largest year of the frame,
  and \<^verbatim>\<open>update_charts\<close> called in Yearly mode without a year (\<^verbatim>\<open>None\<close>) does what it does
  for that largest year.
\<close>

theorem default_year_is_max:
  fixes fr :: frame
  defines "d \<equiv> records fr"
  assumes "\<exists>r\<in>set d. Year r \<noteq> None"
  shows "year_dd_value (startup fr) = Some (Max {y. \<exists>r\<in>set d. Year r = Some y})
    \<and> update_charts P (startup fr) ''Yearly Statistics'' None
        = update_charts P (startup fr) ''Yearly Statistics''
            (Some (Max {y. \<exists>r\<in>set d. Year r = Some y}))
    \<and> Max {y. \<exists>r\<in>set d. Year r = Some y} \<in> set (map snd (year_dd_options (startup fr)))"
proof -
  let ?Y = "{y. \<exists>r\<in>set d. Year r = Some y}"
  let ?ks = "remdups (List.map_filter Year d)"
  have set_ks: "set ?ks = ?Y"
    by (simp only: set_remdups set_map_filter_key)
  from assms(2) have "?Y \<noteq> {}" by auto
  with set_ks have ks: "?ks \<noteq> []" by auto
  then have ne: "years_of d \<noteq> []"
    unfolding years_of_def by (metis set_sort set_empty)
  have last: "last (years_of d) = Max ?Y"
    unfolding years_of_def using last_sort_Max[OF ks] by (simp only: set_ks)
  have yg: "years (startup fr) = years_of d"
    by (simp add: startup_def d_def)
  have 1: "year_dd_value (startup fr) = Some (Max ?Y)"
    using ne last by (simp add: year_dd_value_def yg)
  have 2: "update_charts P (startup fr) ''Yearly Statistics'' None
        = update_charts P (startup fr) ''Yearly Statistics'' (Some (Max ?Y))"
    using ne last by (simp add: update_charts_def yg)
  have "Max ?Y \<in> set (years_of d)"
    using last_in_set[OF ne] by (simp only: last)
  then have 3: "Max ?Y \<in> set (map snd (year_dd_options (startup fr)))"
    by (simp add: year_dd_options_def yg comp_def)
  from 1 2 3 show ?thesis by (intro conjI)
qed

theorem default_year_is_max_witness:
  "(\<exists>r\<in>set (records sample_frame). Year r \<noteq> None)
   \<and> year_dd_value (startup sample_frame) = Some 2020
   \<and> Max {y. \<exists>r\<in>set (records sample_frame). Year r = Some y} = 2020
   \<and> update_charts ascii_int (startup sample_frame) ''Yearly Statistics'' None
       = update_charts ascii_int (startup sample_frame) ''Yearly Statistics'' (Some 2020)"
proof -
  have h: "\<exists>r\<in>set (records sample_frame). Year r \<noteq> None"
    by (simp add: sample_frame_def sample_df_def)
  note th = default_year_is_max[OF h, of ascii_int]
  have v: "year_dd_value (startup sample_frame) = Some 2020"
    by (simp add: year_dd_value_def startup_def years_of_def sample_frame_def sample_df_def)
  from th[THEN conjunct1] v
  have m: "Max {y. \<exists>r\<in>set (records sample_frame). Year r = Some y} = 2020"
    by simp
  from th[THEN conjunct2, THEN conjunct1]
  have u: "update_charts ascii_int (startup sample_frame) ''Yearly Statistics'' None
       = update_charts ascii_int (startup sample_frame) ''Yearly Statistics'' (Some 2020)"
    by (simp only: m)
  from h v m u show ?thesis by (intro conjI)
qed

text \<open>
  C4, as stated, fails on the code: the default \<^verbatim>\<open>"Unknown"\<close> is written only when the
  frame has no \<^verbatim>\<open>Vehicle_Type\<close> column at all (\<^verbatim>\<open>if col not in df.columns\<close>). In a frame
  that has the column, a row with an empty cell keeps its null \<^verbatim>\<open>Vehicle_Type\<close> through
  loading and cleaning.
\<close>

theorem vehicle_type_stays_null_counterexample:
  "load_df sample_str_of_float sample_num_of_str sample_raw =
     Inr \<lparr> records =
             [\<lparr> Year = Some 2019, Month = ''1'', Recession = 1, Automobile_Sales = Some 100,
                Vehicle_Type = Some ''Sedan'', Advertising_Expenditure = Some 0,
                unemployment_rate = None \<rparr>,
              \<lparr> Year = Some 2019, Month = ''2'', Recession = 0, Automobile_Sales = Some 200,
                Vehicle_Type = None, Advertising_Expenditure = Some 0,
                unemployment_rate = None \<rparr>],
           Automobile_Sales_dtype = Float64, Advertising_Expenditure_dtype = Float64 \<rparr>
   \<and> map_sum id (\<lambda>fr. map Vehicle_Type (records fr))
        (load_df sample_str_of_float sample_num_of_str sample_raw)
       = Inr [Some ''Sedan'', None]"
proof -
  have p1: "sample_num_of_str ''1'' = Some 1"
    by (simp add: sample_num_of_str_def ascii_int_def strip_def is_space_def parse_decimal_def
          digit_val_def)
  have p2: "sample_num_of_str ''n/a'' = None"
    by (simp add: sample_num_of_str_def ascii_int_def strip_def is_space_def parse_decimal_def
          digit_val_def)
  have s1: "str_int 1 = ''1''" and s2: "str_int 2 = ''2''"
    by (simp_all add: str_int_def)
  have ld: "load_df sample_str_of_float sample_num_of_str sample_raw =
     Inr \<lparr> records =
             [\<lparr> Year = Some 2019, Month = ''1'', Recession = 1, Automobile_Sales = Some 100,
                Vehicle_Type = Some ''Sedan'', Advertising_Expenditure = Some 0,
                unemployment_rate = None \<rparr>,
              \<lparr> Year = Some 2019, Month = ''2'', Recession = 0, Automobile_Sales = Some 200,
                Vehicle_Type = None, Advertising_Expenditure = Some 0,
                unemployment_rate = None \<rparr>],
           Automobile_Sales_dtype = Float64, Advertising_Expenditure_dtype = Float64 \<rparr>"
    by (simp add: load_df_def sample_raw_def clean_row_def to_numeric_coerce_def
          astype_Int64_def fillna0_astype_int_def trunc_def astype_str_def p1 p2 s1 s2)
  show ?thesis
    by (rule conjI, rule ld) (simp add: ld)
qed

text \<open>
  C4, amended. For every row of every CSV source, after loading and cleaning complete, the
  \<^verbatim>\<open>Recession\<close> field is a non-null integer (of 64 bits), and it is 0 when the cell is
  empty or does not parse. The \<^verbatim>\<open>Vehicle_Type\<close> field is \<^verbatim>\<open>"Unknown"\<close> in every row when
  the source has no such column; when it has one, each row keeps the cell as read: a
  string, or null where the cell is empty. The cleaned frame has the rows of the source, in
  order.
\<close>

theorem load_df_defaults:
  assumes "load_df str_of_float num_of_str raw = Inr fr"
  shows "length (records fr) = length (rows raw)
    \<and> (\<forall>i<length (records fr).
          (to_numeric_coerce num_of_str (raw_Recession (rows raw ! i)) = None
             \<longrightarrow> Recession (records fr ! i) = 0)
          \<and> - (2 ^ 63) \<le> Recession (records fr ! i)
          \<and> Recession (records fr ! i) < 2 ^ 63
          \<and> Vehicle_Type (records fr ! i)
              = (if ''Vehicle_Type'' \<in> set (columns raw) then raw_Vehicle_Type (rows raw ! i)
                 else Some ''Unknown''))"
proof -
  from assms obtain ys where
    ys: "cast_all (\<lambda>r. astype_Int64 (to_numeric_coerce num_of_str (raw_Year r))) (rows raw) = Inr ys"
    and d: "records fr = map (\<lambda>(y, r). clean_row str_of_float num_of_str (columns raw) y r)
                 (zip ys (rows raw))"
    by (auto simp: load_df_def split: if_splits sum.splits)
  from cast_all_Inr[OF ys] have len: "length ys = length (rows raw)"
    by (metis length_map)
  have rng: "- (2 ^ 63) \<le> fillna0_astype_int v \<and> fillna0_astype_int v < 2 ^ 63" for v
    by (cases v) (simp_all add: fillna0_astype_int_def)
  have 1: "length (records fr) = length (rows raw)"
    by (simp add: d len)
  have 2: "(to_numeric_coerce num_of_str (raw_Recession (rows raw ! i)) = None
             \<longrightarrow> Recession (records fr ! i) = 0)
          \<and> - (2 ^ 63) \<le> Recession (records fr ! i)
          \<and> Recession (records fr ! i) < 2 ^ 63
          \<and> Vehicle_Type (records fr ! i)
              = (if ''Vehicle_Type'' \<in> set (columns raw) then raw_Vehicle_Type (rows raw ! i)
                 else Some ''Unknown'')"
    if "i < length (records fr)" for i
  proof -
    from that have i: "i < length ys" "i < length (rows raw)"
      by (simp_all add: d len)
    then have row: "records fr ! i
        = clean_row str_of_float num_of_str (columns raw) (ys ! i) (rows raw ! i)"
      by (simp add: d)
    have a: "to_numeric_coerce num_of_str (raw_Recession (rows raw ! i)) = None
             \<longrightarrow> Recession (records fr ! i) = 0"
      by (simp add: row clean_row_def fillna0_astype_int_def)
    have b: "- (2 ^ 63) \<le> Recession (records fr ! i) \<and> Recession (records fr ! i) < 2 ^ 63"
      using rng by (simp add: row clean_row_def)
    have c: "Vehicle_Type (records fr ! i)
              = (if ''Vehicle_Type'' \<in> set (columns raw) then raw_Vehicle_Type (rows raw ! i)
                 else Some ''Unknown'')"
      by (simp add: row clean_row_def)
    from a b c show ?thesis by blast
  qed
  from 1 2 show ?thesis by blast
qed

theorem load_df_defaults_witness:
  "load_df sample_str_of_float sample_num_of_str sample_raw_no_type =
     Inr \<lparr> records =
             [\<lparr> Year = Some 2019, Month = ''1'', Recession = 1, Automobile_Sales = Some 100,
                Vehicle_Type = Some ''Unknown'', Advertising_Expenditure = Some 0,
                unemployment_rate = None \<rparr>,
              \<lparr> Year = Some 2019, Month = ''2'', Recession = 0, Automobile_Sales = Some 200,
                Vehicle_Type = Some ''Unknown'', Advertising_Expenditure = Some 0,
                unemployment_rate = None \<rparr>],
           Automobile_Sales_dtype = Float64, Advertising_Expenditure_dtype = Float64 \<rparr>
   \<and> length (rows sample_raw_no_type) = 2
   \<and> map raw_Recession (rows sample_raw_no_type) = [StrC ''1'', StrC ''n/a'']
   \<and> to_numeric_coerce sample_num_of_str (raw_Recession (rows sample_raw_no_type ! 1)) = None"
proof -
  have p1: "sample_num_of_str ''1'' = Some 1"
    by (simp add: sample_num_of_str_def ascii_int_def strip_def is_space_def parse_decimal_def
          digit_val_def)
  have p2: "sample_num_of_str ''n/a'' = None"
    by (simp add: sample_num_of_str_def ascii_int_def strip_def is_space_def parse_decimal_def
          digit_val_def)
  have s1: "str_int 1 = ''1''" and s2: "str_int 2 = ''2''"
    by (simp_all add: str_int_def)
  have ld: "load_df sample_str_of_float sample_num_of_str sample_raw_no_type =
     Inr \<lparr> records =
             [\<lparr> Year = Some 2019, Month = ''1'', Recession = 1, Automobile_Sales = Some 100,
                Vehicle_Type = Some ''Unknown'', Advertising_Expenditure = Some 0,
                unemployment_rate = None \<rparr>,
              \<lparr> Year = Some 2019, Month = ''2'', Recession = 0, Automobile_Sales = Some 200,
                Vehicle_Type = Some ''Unknown'', Advertising_Expenditure = Some 0,
                unemployment_rate = None \<rparr>],
           Automobile_Sales_dtype = Float64, Advertising_Expenditure_dtype = Float64 \<rparr>"
    by (simp add: load_df_def sample_raw_no_type_def sample_raw_def clean_row_def
          to_numeric_coerce_def astype_Int64_def fillna0_astype_int_def trunc_def astype_str_def
          p1 p2 s1 s2)
  from load_df_defaults[OF ld, THEN conjunct1]
  have len: "length (rows sample_raw_no_type) = 2"
    by simp
  have cells: "map raw_Recession (rows sample_raw_no_type) = [StrC ''1'', StrC ''n/a'']"
    by (simp add: sample_raw_no_type_def sample_raw_def)
  have na: "to_numeric_coerce sample_num_of_str (raw_Recession (rows sample_raw_no_type ! 1)) = None"
    by (simp add: sample_raw_no_type_def sample_raw_def to_numeric_coerce_def p2)
  from ld len cells na show ?thesis by (intro conjI)
qed

text \<open>
  C5 is right and the code misses it on a CSV that has only its header line. Such a
  source has no row with \<^verbatim>\<open>Recession == 1\<close>; it loads, and its \<^verbatim>\<open>Automobile_Sales\<close> column
  has dtype object, on which the first aggregation of the recession branch raises
  \<^verbatim>\<open>TypeError\<close> (line 186): the callback returns no figure, where the claim asks for four
  placeholders. The Yearly branch raises on this frame in the same way (line 139).
\<close>

theorem header_only_recession_raises:
  "load_df str_of_float num_of_str header_only_raw = Inr header_only_frame
   \<and> filter (\<lambda>r. Recession r = 1) (records header_only_frame) = []
   \<and> update_charts py_int (startup header_only_frame) ''Recession Period Statistics'' year_value
       = Inl TypeError
   \<and> update_charts py_int (startup header_only_frame) ''Yearly Statistics'' year_value
       = Inl TypeError"
  by (simp add: load_df_def header_only_raw_def header_only_frame_def update_charts_def
        recession_figures_def yearly_figures_def startup_def)

text \<open>
  C6. Whether the year selector is enabled depends on the report mode alone. From every
  selector state, choosing Recession disables the year dropdown and shows the explanatory
  text, and choosing Yearly enables it again; the flag and the text after a change of the
  report mode are functions of the chosen mode, and choosing a year leaves them as they are.
\<close>

theorem year_selector_enablement:
  "toggle_year_dropdown ''Recession Period Statistics''
     = (True, ''Year is disabled for Recession Period Statistics.'')
   \<and> toggle_year_dropdown ''Yearly Statistics'' = (False, ''Year is enabled for Yearly Statistics.'')
   \<and> year_dd_disabled (set_report st ''Recession Period Statistics'') = True
   \<and> year_help (set_report st ''Recession Period Statistics'')
       = ''Year is disabled for Recession Period Statistics.''
   \<and> year_dd_disabled (set_report (set_report st ''Recession Period Statistics'')
                          ''Yearly Statistics'') = False
   \<and> year_dd_disabled (set_report st report_type) = fst (toggle_year_dropdown report_type)
   \<and> year_help (set_report st report_type) = snd (toggle_year_dropdown report_type)
   \<and> year_dd_disabled (set_report st report_type) = year_dd_disabled (set_report st' report_type)
   \<and> year_dd_disabled (set_year st y) = year_dd_disabled st
   \<and> year_dd (set_report st report_type) = year_dd st"
  by (simp add: toggle_year_dropdown_def set_report_def set_year_def)

text \<open>
  C10. The Yearly branch is taken on exact equality with \<^verbatim>\<open>"Yearly Statistics"\<close> only.
  Every other report type, whether or not it is \<^verbatim>\<open>"Recession Period Statistics"\<close>, disables
  the year selector and makes \<^verbatim>\<open>update_charts\<close> run the recession branch, with the same
  outcome as for \<^verbatim>\<open>"Recession Period Statistics"\<close> and whatever the year.
\<close>

theorem non_yearly_is_recession:
  assumes "report_type \<noteq> ''Yearly Statistics''"
  shows "toggle_year_dropdown report_type
        = (True, ''Year is disabled for Recession Period Statistics.'')
    \<and> update_charts P g report_type year_value = recession_figures (df g)
    \<and> update_charts P g report_type year_value
        = update_charts P g ''Recession Period Statistics'' other_year
    \<and> toggle_year_dropdown ''Yearly Statistics''
        = (False, ''Year is enabled for Yearly Statistics.'')
    \<and> update_charts P g ''Yearly Statistics'' year_value
        = yearly_figures P (df g)
            (if year_value = None \<and> years g \<noteq> [] then Some (last (years g)) else year_value)"
  using assms by (simp add: toggle_year_dropdown_def update_charts_def)

theorem non_yearly_is_recession_witness:
  "''yearly statistics'' \<noteq> ''Yearly Statistics''
   \<and> toggle_year_dropdown ''yearly statistics''
       = (True, ''Year is disabled for Recession Period Statistics.'')
   \<and> update_charts ascii_int (startup sample_frame) ''yearly statistics'' (Some 2019)
       = recession_figures (df (startup sample_frame))
   \<and> slot1 (recession_figures (df (startup sample_frame)))
       = Inr (Line_by_year [(2020, Some 100)]
                ''Avg Automobile Sales during Recession (Year-wise)'')
   \<and> slot1 (update_charts ascii_int (startup sample_frame) ''Yearly Statistics'' (Some 2019))
       = Inr (Line_by_year [(2019, Some 160), (2020, Some 100)]
                ''Yearly Automobile Sales (Average over Months)'')"
proof -
  have h: "''yearly statistics'' \<noteq> ''Yearly Statistics''"
    by simp
  note th = non_yearly_is_recession[OF h, of ascii_int "startup sample_frame" "Some 2019" None]
  have ry: "rec_yearly (records sample_frame) = [(2020, Some 100)]"
    by (simp add: rec_yearly_def rec_def sample_frame_def sample_df_def groupby_mean_def
          groupby_def mean_skipna_def)
  have ru: "map Automobile_Sales (rec_u (records sample_frame)) = [Some 50]"
    by (simp add: rec_u_def rec_def sample_frame_def sample_df_def)
  then have ne: "rec_u (records sample_frame) \<noteq> []"
    by auto
  have ok: "\<not> (\<exists>r\<in>set (rec_u (records sample_frame)). invalid_size (Automobile_Sales r))"
  proof -
    have "\<forall>v\<in>set (map Automobile_Sales (rec_u (records sample_frame))). \<not> invalid_size v"
      unfolding ru by (simp add: invalid_size_def)
    then show ?thesis by simp
  qed
  have dt: "Automobile_Sales_dtype sample_frame = Float64"
    "Advertising_Expenditure_dtype sample_frame = Float64"
    by (simp_all add: sample_frame_def)
  have f: "slot1 (recession_figures (df (startup sample_frame)))
       = Inr (Line_by_year [(2020, Some 100)]
                ''Avg Automobile Sales during Recession (Year-wise)'')"
    using ne ok by (simp add: recession_figures_def startup_def dt ry slot1_def Let_def)
  have ye: "yearly (records sample_frame) = [(2019, Some 160), (2020, Some 100)]"
    by (simp add: yearly_def sample_frame_def sample_df_def groupby_mean_def groupby_def
          mean_skipna_def)
  have y: "slot1 (update_charts ascii_int (startup sample_frame) ''Yearly Statistics'' (Some 2019))
       = Inr (Line_by_year [(2019, Some 160), (2020, Some 100)]
                ''Yearly Automobile Sales (Average over Months)'')"
    unfolding th[THEN conjunct2, THEN conjunct2, THEN conjunct2, THEN conjunct2]
    by (simp add: yearly_figures_cases startup_def dt ye slot1_def)
  from h th[THEN conjunct1] th[THEN conjunct2, THEN conjunct1] f y
  show ?thesis by (intro conjI)
qed

end
